theory Spec2Isabelle
  imports Complex_Main "HOL-Library.Word" "HOL-Library.Multiset"
begin

section \<open>Data model\<close>

text \<open>
  The structs of the program, field by field.  Go's \<open>float64\<close> fields (refresh rate and scale)
  are idealised as real numbers: the program only copies them, compares them with zero,
  subtracts two of them, takes an absolute value, truncates the result to an integer and
  prints a scale with six decimals.  The subtractions are exact here and rounded in the
  program; the theorems that depend on the comparison of refresh rates either evaluate it
  on one input or assume distances between refresh rates on which the rounding cannot change
  the sign of the comparison.
  Go's \<open>int\<close> is 64 bits wide; \<open>Priority\<close> is the one integer field the program does arithmetic
  on, so it is a 64-bit word and its subtraction wraps.  The integers of \<open>Size\<close> and
  \<open>Position\<close> are only copied and compared for equality.
\<close>

type_synonym float64 = real

record Size =
  Height :: int
  Width :: int

record Position =
  X :: int
  Y :: int

record Mode =
  Id :: string
  Name :: string
  RefreshRate :: float64
  Size :: Size

record Output =
  Name :: string
  CurrentModeId :: string
  Enabled :: bool
  Size :: Size
  Pos :: Position
  Scale :: float64
  Modes :: "Mode list"
  Priority :: "64 word"

record KScreenDoctorResult =
  Outputs :: "Output list"

record Screen =
  Name :: string
  Size :: Size
  Position :: Position
  RefreshRate :: float64
  Scale :: float64

record Profile =
  Screens :: "Screen list"

text \<open>
  The errors the two commands build with \<open>fmt.Errorf\<close>, under the names the specification
  gives them, each carrying the output name that the message interpolates:
  \<open>IntegrityError n\<close> is "failed to determine refreshrate for output n",
  \<open>MissingOutputError n\<close> is "profile references missing output n" and
  \<open>NoMatchingModeError n\<close> is "output n doesn't contain a matching mode".
  \<open>IndexPanic\<close> is the run-time panic of reading element 0 of an empty slice.
\<close>

datatype error =
    IntegrityError string
  | MissingOutputError string
  | NoMatchingModeError string
  | IndexPanic

section \<open>The library sort\<close>

text \<open>
  \<open>slices.SortFunc\<close> of Go's standard library sorts a slice of at most 12 elements by
  insertion sort: it walks \<open>i\<close> from 1 to the end and swaps element \<open>j\<close> with its left
  neighbour, starting at \<open>j = i\<close>, as long as \<open>cmp(data[j], data[j-1]) < 0\<close>.
  Longer slices go through the library's pattern-defeating quicksort, which is not part of
  this repository: it is the parameter \<open>pdqsort\<close> of everything below.
\<close>

fun insertionSortInner :: "('a \<Rightarrow> 'a \<Rightarrow> int) \<Rightarrow> nat \<Rightarrow> 'a list \<Rightarrow> 'a list" where
  "insertionSortInner cmp 0 data = data"
| "insertionSortInner cmp (Suc j) data =
     (if cmp (data ! Suc j) (data ! j) < 0
      then insertionSortInner cmp j (data[Suc j := data ! j, j := data ! Suc j])
      else data)"

definition insertionSortCmpFunc :: "('a \<Rightarrow> 'a \<Rightarrow> int) \<Rightarrow> 'a list \<Rightarrow> 'a list" where
  "insertionSortCmpFunc cmp data = fold (insertionSortInner cmp) [1..<length data] data"

definition SortFunc ::
  "(('a \<Rightarrow> 'a \<Rightarrow> int) \<Rightarrow> 'a list \<Rightarrow> 'a list) \<Rightarrow> ('a \<Rightarrow> 'a \<Rightarrow> int) \<Rightarrow> 'a list \<Rightarrow> 'a list" where
  "SortFunc pdqsort cmp x =
     (if length x \<le> 12 then insertionSortCmpFunc cmp x else pdqsort cmp x)"

section \<open>Saving a profile\<close>

text \<open>The comparison function of the save path: \<open>a.Priority - b.Priority\<close>, as a Go \<open>int\<close>.\<close>

definition priorityCmp :: "Output \<Rightarrow> Output \<Rightarrow> int" where
  "priorityCmp a b = sint (Priority a - Priority b)"

text \<open>
  The inner loop over \<open>output.Modes\<close>: the refresh rate of the first mode whose identifier is
  the output's current-mode identifier, and the zero value of a fresh \<open>Screen\<close> when there is
  none.
\<close>

fun currentRefreshRate :: "Mode list \<Rightarrow> string \<Rightarrow> float64" where
  "currentRefreshRate [] cur = 0"
| "currentRefreshRate (mode # modes) cur =
     (if Id mode = cur then Mode.RefreshRate mode else currentRefreshRate modes cur)"

definition screenOf :: "Output \<Rightarrow> Screen" where
  "screenOf output =
     \<lparr>Screen.Name = Output.Name output,
      Screen.Size = Output.Size output,
      Position = Pos output,
      Screen.RefreshRate = currentRefreshRate (Modes output) (CurrentModeId output),
      Screen.Scale = Output.Scale output\<rparr>"

text \<open>The loop over the sorted outputs, with the profile's screens built so far.\<close>

fun saveLoop :: "Output list \<Rightarrow> Screen list \<Rightarrow> error + Screen list" where
  "saveLoop [] screens = Inr screens"
| "saveLoop (output # outputs) screens =
     (if \<not> Enabled output then saveLoop outputs screens
      else if Screen.RefreshRate (screenOf output) = 0
        then Inl (IntegrityError (Output.Name output))
        else saveLoop outputs (screens @ [screenOf output]))"

text \<open>
  \<open>SaveProfileCmd.Run\<close> between reading the inventory and serialising the profile (the
  specification's \<open>extract\<close>): the argument is what \<open>currentScreenSetup\<close> returned, the result
  the profile handed to \<open>json.Marshal\<close>, or the error returned before anything is written.
\<close>

definition SaveProfileCmd_Run ::
  "((Output \<Rightarrow> Output \<Rightarrow> int) \<Rightarrow> Output list \<Rightarrow> Output list) \<Rightarrow> KScreenDoctorResult \<Rightarrow> error + Profile" where
  "SaveProfileCmd_Run pdqsort result =
     (case saveLoop (SortFunc pdqsort priorityCmp (Outputs result)) [] of
        Inl e \<Rightarrow> Inl e
      | Inr screens \<Rightarrow> Inr \<lparr>Screens = screens\<rparr>)"

section \<open>Loading a profile\<close>

text \<open>
  The arguments handed to the display tool.  The program renders each as a string
  (\<open>output.N.disable\<close>, \<open>output.N.enable\<close>, \<open>output.N.mode.M\<close>, \<open>output.N.position.X,Y\<close>,
  \<open>output.N.scale.S\<close>); the model keeps the parts that the format string interpolates.
  The scale is printed with \<open>%f\<close>, that is with six decimals: \<open>SetScale\<close> carries the number
  that is printed, the scale rounded to a multiple of one millionth, a tie going to the even
  one.
\<close>

datatype directive =
    Disable string
  | Enable string
  | SetMode string string
  | SetPosition string Position
  | SetScale string float64

record targetOutputProperties =
  name :: string
  mode :: string
  position :: Position
  scale :: float64

text \<open>\<open>lo.Associate\<close>: one map entry per output, a later output replacing an earlier one of the same name.\<close>

definition outputByName :: "Output list \<Rightarrow> (string \<rightharpoonup> Output)" where
  "outputByName outputs = fold (\<lambda>output m. m(Output.Name output \<mapsto> output)) outputs Map.empty"

text \<open>
  Go's conversion of a float to \<open>int\<close> discards the fraction.  When the result does not fit
  the 64 bits of an \<open>int\<close> the language leaves it to the implementation; the value here is
  the one that the conversion instruction of amd64 yields, the least \<open>int\<close>.
\<close>

definition floatToInt :: "float64 \<Rightarrow> int" where
  "floatToInt d =
     (let t = (if d < 0 then \<lceil>d\<rceil> else \<lfloor>d\<rfloor>)
      in if - (2 ^ 63) \<le> t \<and> t < 2 ^ 63 then t else - (2 ^ 63))"

text \<open>
  \<open>fmt.Sprintf("%f", x)\<close> prints \<open>x\<close> rounded to six decimals, to the nearest multiple of
  one millionth and to the even one of two equally near.
\<close>

definition roundHalfEven :: "float64 \<Rightarrow> int" where
  "roundHalfEven x =
     (let f = \<lfloor>x\<rfloor>; r = x - of_int f
      in if r < 1 / 2 then f else if 1 / 2 < r then f + 1 else if even f then f else f + 1)"

definition sixDecimals :: "float64 \<Rightarrow> float64" where
  "sixDecimals x = of_int (roundHalfEven (x * 1000000)) / 1000000"

definition refreshCmp :: "Screen \<Rightarrow> Mode \<Rightarrow> Mode \<Rightarrow> int" where
  "refreshCmp desiredScreen a b =
     (let diffA = \<bar>Screen.RefreshRate desiredScreen - Mode.RefreshRate a\<bar>;
          diffB = \<bar>Screen.RefreshRate desiredScreen - Mode.RefreshRate b\<bar>
      in floatToInt (diffA - diffB))"

text \<open>
  The body of the loop over the profile's screens: the properties of the output that one
  desired screen asks for, or the error that makes the command return at once.
\<close>

definition resolveScreen ::
  "((Mode \<Rightarrow> Mode \<Rightarrow> int) \<Rightarrow> Mode list \<Rightarrow> Mode list) \<Rightarrow> (string \<rightharpoonup> Output) \<Rightarrow> Screen \<Rightarrow>
   error + targetOutputProperties" where
  "resolveScreen pdqsort byName desiredScreen =
     (case byName (Screen.Name desiredScreen) of
        None \<Rightarrow> Inl (MissingOutputError (Screen.Name desiredScreen))
      | Some output \<Rightarrow>
          (let potentialModes = filter (\<lambda>mode. Mode.Size mode = Screen.Size desiredScreen) (Modes output)
           in if length potentialModes = 0
              then Inl (NoMatchingModeError (Screen.Name desiredScreen))
              else (case SortFunc pdqsort (refreshCmp desiredScreen) potentialModes of
                      [] \<Rightarrow> Inl IndexPanic
                    | best # _ \<Rightarrow>
                        Inr \<lparr>name = Screen.Name desiredScreen, mode = Mode.Name best,
                             position = Position desiredScreen,
                             scale = sixDecimals (Screen.Scale desiredScreen)\<rparr>)))"

text \<open>
  The loop itself.  Its state is the slice \<open>targetOutputs\<close> and the set of names
  \<open>targetOutputNames\<close>, both extended once per screen.
\<close>

fun loadLoop ::
  "((Mode \<Rightarrow> Mode \<Rightarrow> int) \<Rightarrow> Mode list \<Rightarrow> Mode list) \<Rightarrow> (string \<rightharpoonup> Output) \<Rightarrow> Screen list \<Rightarrow>
   targetOutputProperties list \<times> string set \<Rightarrow> error + targetOutputProperties list \<times> string set" where
  "loadLoop pdqsort byName [] st = Inr st"
| "loadLoop pdqsort byName (desiredScreen # screens) (targetOutputs, targetOutputNames) =
     (case resolveScreen pdqsort byName desiredScreen of
        Inl e \<Rightarrow> Inl e
      | Inr targetOutput \<Rightarrow>
          loadLoop pdqsort byName screens
            (targetOutputs @ [targetOutput], insert (name targetOutput) targetOutputNames))"

definition enableArgs :: "targetOutputProperties \<Rightarrow> directive list" where
  "enableArgs output =
     [Enable (name output), SetMode (name output) (mode output),
      SetPosition (name output) (position output), SetScale (name output) (scale output)]"

text \<open>
  \<open>LoadProfileCmd.Run\<close> between decoding the profile and starting the display tool (the
  specification's \<open>apply\<close>).  Go enumerates a map in an order of its own choosing: \<open>keys\<close> is the
  order in which the \<open>range\<close> over \<open>outputByName\<close> yields the names, and \<open>rangeOrder\<close> says that
  it yields every key once.  The result is the argument list of the one call of the tool.
\<close>

definition rangeOrder :: "(string \<rightharpoonup> Output) \<Rightarrow> string list \<Rightarrow> bool" where
  "rangeOrder m keys \<longleftrightarrow> distinct keys \<and> set keys = dom m"

definition LoadProfileCmd_Run ::
  "((Mode \<Rightarrow> Mode \<Rightarrow> int) \<Rightarrow> Mode list \<Rightarrow> Mode list) \<Rightarrow> string list \<Rightarrow> Profile \<Rightarrow> KScreenDoctorResult \<Rightarrow>
   error + directive list" where
  "LoadProfileCmd_Run pdqsort keys profile currentScreen =
     (case loadLoop pdqsort (outputByName (Outputs currentScreen)) (Screens profile) ([], {}) of
        Inl e \<Rightarrow> Inl e
      | Inr (targetOutputs, targetOutputNames) \<Rightarrow>
          (let disabledOutputs = filter (\<lambda>outputName. outputName \<notin> targetOutputNames) keys
           in Inr (map Disable disabledOutputs @ concat (map enableArgs targetOutputs))))"

section \<open>Auxiliary definitions\<close>

text \<open>
  The insertion sort again, as a function on lists: \<open>insertRight\<close> puts a new element at the
  right end of the part sorted so far, which is kept in reverse, and moves it left past every
  element it compares less than.
\<close>

fun insertRight :: "('a \<Rightarrow> 'a \<Rightarrow> int) \<Rightarrow> 'a \<Rightarrow> 'a list \<Rightarrow> 'a list" where
  "insertRight cmp y [] = [y]"
| "insertRight cmp y (x # xs) = (if cmp y x < 0 then x # insertRight cmp y xs else y # x # xs)"

definition insertAll :: "('a \<Rightarrow> 'a \<Rightarrow> int) \<Rightarrow> 'a list \<Rightarrow> 'a list" where
  "insertAll cmp xs = foldl (\<lambda>acc y. insertRight cmp y acc) [] xs"

text \<open>
  The selection rule in the specification's words: among the qualifying modes, the one whose
  refresh rate is nearest to the desired one, the first of them in enumeration order on a tie.
\<close>

fun specNearestFrom :: "float64 \<Rightarrow> Mode \<Rightarrow> Mode list \<Rightarrow> Mode" where
  "specNearestFrom desired best [] = best"
| "specNearestFrom desired best (m # ms) =
     specNearestFrom desired
       (if \<bar>desired - Mode.RefreshRate m\<bar> < \<bar>desired - Mode.RefreshRate best\<bar> then m else best) ms"

definition specNearestMode :: "float64 \<Rightarrow> Mode list \<Rightarrow> Mode option" where
  "specNearestMode desired modes =
     (case modes of [] \<Rightarrow> None | m # ms \<Rightarrow> Some (specNearestFrom desired m ms))"

section \<open>Predicates used in the statements\<close>

text \<open>
  What the theorems below ask of the quicksort that stands behind \<open>pdqsort\<close>: it returns
  the elements it was given, in some order.  The library's sort only ever swaps elements of
  the slice; the insertion sort above has the property (\<open>rearranges_insertionSortCmpFunc\<close>).
\<close>

definition rearranges :: "(('a \<Rightarrow> 'a \<Rightarrow> int) \<Rightarrow> 'a list \<Rightarrow> 'a list) \<Rightarrow> bool" where
  "rearranges pdqsort \<longleftrightarrow> (\<forall>cmp x. mset (pdqsort cmp x) = mset x)"

text \<open>
  The outputs on which the save loop stops: enabled, and the refresh rate found for the
  current mode is zero (no mode has the current-mode identifier, or the first that has it
  reports a rate of 0).
\<close>

definition refreshRateUndetermined :: "Output \<Rightarrow> bool" where
  "refreshRateUndetermined output \<longleftrightarrow>
     Enabled output \<and> currentRefreshRate (Modes output) (CurrentModeId output) = 0"

text \<open>
  A desired screen that passes both checks of the load loop: its name is a key of the map
  of live outputs and that output has a mode of the desired size.
\<close>

definition screenResolves :: "(string \<rightharpoonup> Output) \<Rightarrow> Screen \<Rightarrow> bool" where
  "screenResolves byName desiredScreen =
     (case byName (Screen.Name desiredScreen) of
        None \<Rightarrow> False
      | Some output \<Rightarrow>
          filter (\<lambda>m. Mode.Size m = Screen.Size desiredScreen) (Modes output) \<noteq> [])"

text \<open>
  The four arguments that enable and configure the output of one desired screen, for a
  given mode name.
\<close>

definition screenArgs :: "string \<Rightarrow> Screen \<Rightarrow> directive list" where
  "screenArgs modeName desiredScreen =
     [Enable (Screen.Name desiredScreen), SetMode (Screen.Name desiredScreen) modeName,
      SetPosition (Screen.Name desiredScreen) (Position desiredScreen),
      SetScale (Screen.Name desiredScreen) (sixDecimals (Screen.Scale desiredScreen))]"

text \<open>
  The mode that the save loop reads the refresh rate from: the first mode whose identifier is
  the output's current-mode identifier.
\<close>

definition currentMode :: "Output \<Rightarrow> Mode option" where
  "currentMode output = find (\<lambda>m. Id m = CurrentModeId output) (Modes output)"

definition currentModeName :: "Output \<Rightarrow> string" where
  "currentModeName output = (case currentMode output of None \<Rightarrow> [] | Some cur \<Rightarrow> Mode.Name cur)"

text \<open>
  What the round trip asks of the quicksort behind \<open>pdqsort\<close>: an element that compares less
  than every other element of the slice, and that no other element compares less than, comes
  first.  The insertion sort has the property (\<open>leastFirst_insertionSortCmpFunc\<close>).
\<close>

definition leastFirst :: "(('a \<Rightarrow> 'a \<Rightarrow> int) \<Rightarrow> 'a list \<Rightarrow> 'a list) \<Rightarrow> bool" where
  "leastFirst pdqsort \<longleftrightarrow>
     (\<forall>cmp pre c post.
        (\<forall>y\<in>set (pre @ post). cmp c y < 0 \<and> \<not> cmp y c < 0) \<longrightarrow>
        (\<exists>rest. pdqsort cmp (pre @ c # post) = c # rest))"

text \<open>
  An output for which loading what was saved selects the current mode again.  The current
  mode exists and has the size the output reports.  No mode of that size is further than
  \<open>2 ^ 62\<close> Hz from it, so that every comparison with it converts to \<open>int\<close> within range,
  rounded or not.  Every mode of that size listed before it differs from it by at least 1 Hz,
  so that neither an exact tie nor the truncated comparison lets an earlier mode win.  When
  there are more than 12 modes of that size, so that the library sorts them by quicksort, the
  modes of that size listed after it differ from it by at least 1 Hz as well.
\<close>

definition reselectsCurrentMode :: "Output \<Rightarrow> bool" where
  "reselectsCurrentMode output =
     (case currentMode output of
        None \<Rightarrow> False
      | Some cur \<Rightarrow>
          Mode.Size cur = Output.Size output
          \<and> list_all (\<lambda>m. \<bar>Mode.RefreshRate cur - Mode.RefreshRate m\<bar> \<le> 2 ^ 62)
               (filter (\<lambda>m. Mode.Size m = Output.Size output) (Modes output))
          \<and> list_all (\<lambda>m. 1 \<le> \<bar>Mode.RefreshRate cur - Mode.RefreshRate m\<bar>)
               (filter (\<lambda>m. Mode.Size m = Output.Size output)
                  (takeWhile (\<lambda>m. Id m \<noteq> CurrentModeId output) (Modes output)))
          \<and> (length (filter (\<lambda>m. Mode.Size m = Output.Size output) (Modes output)) \<le> 12
             \<or> list_all (\<lambda>m. 1 \<le> \<bar>Mode.RefreshRate cur - Mode.RefreshRate m\<bar>)
                  (filter (\<lambda>m. Mode.Size m = Output.Size output)
                     (tl (dropWhile (\<lambda>m. Id m \<noteq> CurrentModeId output) (Modes output))))))"

text \<open>
  The arguments that leave an enabled output as it is: its current mode by name, its
  position, and its scale as \<open>%f\<close> prints it.
\<close>

definition currentArgs :: "Output \<Rightarrow> directive list" where
  "currentArgs output =
     [Enable (Output.Name output), SetMode (Output.Name output) (currentModeName output),
      SetPosition (Output.Name output) (Pos output),
      SetScale (Output.Name output) (sixDecimals (Output.Scale output))]"

text \<open>
  Priorities far enough from the ends of the 64-bit range for the difference of any two of
  them not to wrap.
\<close>

definition priorityInRange :: "Output \<Rightarrow> bool" where
  "priorityInRange output \<longleftrightarrow>
     - (2 ^ 62) \<le> sint (Priority output) \<and> sint (Priority output) < 2 ^ 62"

section \<open>Example inventories\<close>

text \<open>
  The inventories and profiles at which the theorems below are evaluated.  None of them has
  a slice of more than 12 elements to sort, so the insertion sort stands for the parameter
  \<open>pdqsort\<close> wherever a closed statement needs one.
\<close>

definition fullHD :: Size where
  "fullHD = \<lparr>Height = 1080, Width = 1920\<rparr>"

definition origin :: Position where
  "origin = \<lparr>X = 0, Y = 0\<rparr>"

definition mode599 :: Mode where
  "mode599 = \<lparr>Id = ''1'', Mode.Name = ''1920x1080@59.9'', Mode.RefreshRate = 599 / 10, Mode.Size = fullHD\<rparr>"

definition mode600 :: Mode where
  "mode600 = \<lparr>Id = ''2'', Mode.Name = ''1920x1080@60'', Mode.RefreshRate = 60, Mode.Size = fullHD\<rparr>"

definition mode750 :: Mode where
  "mode750 = \<lparr>Id = ''3'', Mode.Name = ''1920x1080@75'', Mode.RefreshRate = 75, Mode.Size = fullHD\<rparr>"

definition outputA :: Output where
  "outputA = \<lparr>Output.Name = ''A'', CurrentModeId = ''2'', Enabled = True, Output.Size = fullHD,
     Pos = origin, Output.Scale = 1, Modes = [mode599, mode600, mode750], Priority = 1\<rparr>"

definition screenA :: Screen where
  "screenA = \<lparr>Screen.Name = ''A'', Screen.Size = fullHD, Position = origin,
     Screen.RefreshRate = 60, Screen.Scale = 1\<rparr>"

definition outputLow :: Output where
  "outputLow = outputA\<lparr>Output.Name := ''LOW'', Priority := - 2\<rparr>"

definition outputHigh :: Output where
  "outputHigh = outputA\<lparr>Output.Name := ''HIGH'', Priority := 9223372036854775807\<rparr>"

definition outputOff :: Output where
  "outputOff = \<lparr>Output.Name = ''OFF'', CurrentModeId = ''7'', Enabled = False, Output.Size = fullHD,
     Pos = origin, Output.Scale = 1, Modes = [], Priority = 0\<rparr>"

definition outputStaleA :: Output where
  "outputStaleA = outputA\<lparr>CurrentModeId := ''7''\<rparr>"

definition outputStaleB :: Output where
  "outputStaleB = outputA\<lparr>Output.Name := ''B'', CurrentModeId := ''7'', Priority := 2\<rparr>"

definition outputB :: Output where
  "outputB = outputA\<lparr>Output.Name := ''B'', Priority := 2\<rparr>"

definition outputC :: Output where
  "outputC = outputA\<lparr>Output.Name := ''C'', Priority := 3\<rparr>"

definition screenB :: Screen where
  "screenB = screenA\<lparr>Screen.Name := ''B'', Position := \<lparr>X = 1920, Y = 0\<rparr>\<rparr>"

definition screenX :: Screen where
  "screenX = screenA\<lparr>Screen.Name := ''X''\<rparr>"

definition screenSmall :: Screen where
  "screenSmall = screenA\<lparr>Screen.Size := \<lparr>Height = 480, Width = 640\<rparr>\<rparr>"

definition modeTwin1 :: Mode where
  "modeTwin1 = \<lparr>Id = ''1'', Mode.Name = ''1920x1080@60 (first)'', Mode.RefreshRate = 60, Mode.Size = fullHD\<rparr>"

definition modeTwin2 :: Mode where
  "modeTwin2 = \<lparr>Id = ''2'', Mode.Name = ''1920x1080@60 (second)'', Mode.RefreshRate = 60, Mode.Size = fullHD\<rparr>"

definition outputTwin :: Output where
  "outputTwin = outputA\<lparr>Output.Scale := 12345678 / 10000000, Modes := [modeTwin1, modeTwin2]\<rparr>"

definition modeFar :: Mode where
  "modeFar = \<lparr>Id = ''9'', Mode.Name = ''1920x1080@1e19'', Mode.RefreshRate = 10 ^ 19, Mode.Size = fullHD\<rparr>"

definition outputFar :: Output where
  "outputFar = outputA\<lparr>Modes := [mode600, modeFar]\<rparr>"

definition outputE :: Output where
  "outputE = outputA\<lparr>Output.Name := ''E'', Output.Scale := 12345678 / 10000000,
     Modes := [mode600, mode599], Priority := 5\<rparr>"

definition outputD :: Output where
  "outputD = outputA\<lparr>Output.Name := ''D'', Pos := \<lparr>X = 1920, Y = 120\<rparr>, Output.Scale := 5 / 4,
     Modes := [mode750, mode600, mode599], Priority := 0\<rparr>"

section \<open>Evaluation\<close>

text \<open>The equations that evaluate the two commands on the examples.\<close>

lemmas example_defs = fullHD_def origin_def mode599_def mode600_def mode750_def outputA_def
  screenA_def outputLow_def outputHigh_def

lemmas more_defs = outputOff_def outputStaleA_def outputStaleB_def outputB_def outputC_def screenB_def screenX_def screenSmall_def

lemmas twin_defs = modeTwin1_def modeTwin2_def outputTwin_def outputD_def outputE_def modeFar_def
  outputFar_def

lemmas run_defs = LoadProfileCmd_Run_def SaveProfileCmd_Run_def resolveScreen_def outputByName_def
  SortFunc_def insertionSortCmpFunc_def refreshCmp_def floatToInt_def enableArgs_def priorityCmp_def
  sixDecimals_def roundHalfEven_def
  screenOf_def upt_rec numeral_nat

section \<open>Properties of the library sort\<close>

lemma length_insertRight [simp]: "length (insertRight cmp y xs) = Suc (length xs)"
  by (induction xs) auto

lemma mset_insertRight [simp]: "mset (insertRight cmp y xs) = add_mset y (mset xs)"
  by (induction xs) auto

lemma foldl_insertRight_mset:
  "mset (foldl (\<lambda>acc y. insertRight cmp y acc) acc xs) = mset acc + mset xs"
  by (induction xs arbitrary: acc) auto

lemma mset_insertAll [simp]: "mset (insertAll cmp xs) = mset xs"
  by (simp add: insertAll_def foldl_insertRight_mset)

lemma length_insertAll [simp]: "length (insertAll cmp xs) = length xs"
  using mset_insertAll [of cmp xs] by (metis size_mset)

lemma insertAll_snoc: "insertAll cmp (xs @ [y]) = insertRight cmp y (insertAll cmp xs)"
  by (simp add: insertAll_def)

lemma insertionSortInner_insertRight:
  "j < length data \<Longrightarrow>
   insertionSortInner cmp j data =
     rev (insertRight cmp (data ! j) (rev (take j data))) @ drop (Suc j) data"
proof (induction j arbitrary: data)
  case 0
  then show ?case by (cases data) auto
next
  case (Suc j)
  let ?y = "data ! Suc j" and ?x = "data ! j"
  let ?d = "data[Suc j := ?x, j := ?y]"
  from Suc.prems have j: "j < length data" by simp
  have tk: "take (Suc j) data = take j data @ [?x]"
    using j by (simp add: take_Suc_conv_app_nth)
  show ?case
  proof (cases "cmp ?y ?x < 0")
    case True
    have len: "j < length ?d" using j by simp
    have dj: "?d ! j = ?y" using j by simp
    have tkd: "take j ?d = take j data" by simp
    have drd: "drop (Suc j) ?d = ?x # drop (Suc (Suc j)) data"
      using Suc.prems by (simp add: drop_update_swap Cons_nth_drop_Suc [symmetric] upd_conv_take_nth_drop)
    show ?thesis
      using True Suc.IH [OF len] by (simp add: dj tkd drd tk)
  next
    case False
    have "data = take j data @ ?x # ?y # drop (Suc (Suc j)) data"
      using Suc.prems j by (metis Cons_nth_drop_Suc id_take_nth_drop Suc_lessD)
    then show ?thesis using False by (simp add: tk)
  qed
qed

lemma fold_insertionSortInner:
  "k \<le> length data \<Longrightarrow>
   fold (insertionSortInner cmp) [1..<k] data = rev (insertAll cmp (take k data)) @ drop k data"
proof (induction k)
  case 0
  then show ?case by (simp add: insertAll_def)
next
  case (Suc k)
  show ?case
  proof (cases "k = 0")
    case True
    with Suc.prems show ?thesis
      by (cases data) (auto simp: insertAll_def)
  next
    case False
    let ?d = "rev (insertAll cmp (take k data)) @ drop k data"
    from Suc.prems have k: "k < length data" by simp
    have len: "k < length ?d" using k by simp
    have nth: "?d ! k = data ! k" using k by (simp add: nth_append)
    have tk: "take k ?d = rev (insertAll cmp (take k data))" using k by simp
    have dr: "drop (Suc k) ?d = drop (Suc k) data" using k by simp
    have "fold (insertionSortInner cmp) [1..<Suc k] data = insertionSortInner cmp k ?d"
      using Suc.IH k False by simp
    also have "\<dots> = rev (insertRight cmp (data ! k) (insertAll cmp (take k data))) @ drop (Suc k) data"
      using insertionSortInner_insertRight [OF len, of cmp] by (simp only: nth tk dr rev_rev_ident)
    also have "\<dots> = rev (insertAll cmp (take (Suc k) data)) @ drop (Suc k) data"
      using k by (simp add: take_Suc_conv_app_nth insertAll_snoc)
    finally show ?thesis .
  qed
qed

lemma insertionSortCmpFunc_insertAll: "insertionSortCmpFunc cmp data = rev (insertAll cmp data)"
  using fold_insertionSortInner [of "length data" data cmp]
  by (simp add: insertionSortCmpFunc_def)

lemma mset_insertionSortCmpFunc [simp]: "mset (insertionSortCmpFunc cmp data) = mset data"
  by (simp add: insertionSortCmpFunc_insertAll)

lemma rearranges_insertionSortCmpFunc: "rearranges insertionSortCmpFunc"
  by (simp add: rearranges_def)

lemma mset_SortFunc: "rearranges pdqsort \<Longrightarrow> mset (SortFunc pdqsort cmp x) = mset x"
  by (simp add: SortFunc_def rearranges_def)

lemma set_SortFunc: "rearranges pdqsort \<Longrightarrow> set (SortFunc pdqsort cmp x) = set x"
  using mset_SortFunc [of pdqsort cmp x] by (metis set_mset_mset)

lemma SortFunc_Nil_iff: "rearranges pdqsort \<Longrightarrow> SortFunc pdqsort cmp x = [] \<longleftrightarrow> x = []"
  using mset_SortFunc [of pdqsort cmp x] by (metis mset_zero_iff)

text \<open>An element that compares less than everything before it and that nothing after it
  compares less than ends up first.\<close>

lemma insertRight_not_Nil [simp]: "insertRight cmp y acc \<noteq> []"
  by (cases acc) auto

lemma last_insertRight_less:
  "\<forall>x\<in>set acc. cmp c x < 0 \<Longrightarrow> last (insertRight cmp c acc) = c"
  by (induction acc) auto

lemma last_insertRight_keep:
  "acc \<noteq> [] \<Longrightarrow> \<not> cmp y (last acc) < 0 \<Longrightarrow> last (insertRight cmp y acc) = last acc"
  by (induction acc) auto

lemma foldl_insertRight_keep:
  "acc \<noteq> [] \<Longrightarrow> \<forall>y\<in>set post. \<not> cmp y (last acc) < 0 \<Longrightarrow>
   foldl (\<lambda>acc y. insertRight cmp y acc) acc post \<noteq> [] \<and>
   last (foldl (\<lambda>acc y. insertRight cmp y acc) acc post) = last acc"
proof (induction post arbitrary: acc)
  case Nil
  then show ?case by simp
next
  case (Cons y post)
  have l: "last (insertRight cmp y acc) = last acc"
    using Cons.prems by (simp add: last_insertRight_keep)
  show ?case
    using Cons.IH [of "insertRight cmp y acc"] Cons.prems l by simp
qed

lemma insertAll_last:
  assumes "\<forall>x\<in>set pre. cmp c x < 0" and "\<forall>y\<in>set post. \<not> cmp y c < 0"
  shows "insertAll cmp (pre @ c # post) \<noteq> [] \<and> last (insertAll cmp (pre @ c # post)) = c"
proof -
  let ?acc = "insertRight cmp c (insertAll cmp pre)"
  have "set (insertAll cmp pre) = set pre"
    using mset_insertAll [of cmp pre] by (metis set_mset_mset)
  with assms(1) have l: "last ?acc = c" by (simp add: last_insertRight_less)
  have "insertAll cmp (pre @ c # post) = foldl (\<lambda>acc y. insertRight cmp y acc) ?acc post"
    by (simp add: insertAll_def)
  then show ?thesis
    using foldl_insertRight_keep [of ?acc post cmp] assms(2) l by simp
qed

lemma insertionSortCmpFunc_first:
  assumes "\<forall>x\<in>set pre. cmp c x < 0" and "\<forall>y\<in>set post. \<not> cmp y c < 0"
  shows "\<exists>rest. insertionSortCmpFunc cmp (pre @ c # post) = c # rest"
proof -
  let ?r = "insertAll cmp (pre @ c # post)"
  from insertAll_last [OF assms] have "?r \<noteq> []" and "last ?r = c" by simp_all
  then have "hd (rev ?r) = c" and "rev ?r \<noteq> []" by (simp_all add: hd_rev)
  then show ?thesis
    unfolding insertionSortCmpFunc_insertAll by (cases "rev ?r") auto
qed

section \<open>The save path\<close>

lemma currentRefreshRate_unmatched:
  "cur \<notin> Id ` set modes \<Longrightarrow> currentRefreshRate modes cur = 0"
  by (induction modes) auto

lemma RefreshRate_screenOf [simp]:
  "Screen.RefreshRate (screenOf output) = currentRefreshRate (Modes output) (CurrentModeId output)"
  by (simp add: screenOf_def)

lemma saveLoop_eq:
  "saveLoop outputs screens =
     (case find refreshRateUndetermined outputs of
        None \<Rightarrow> Inr (screens @ map screenOf (filter Enabled outputs))
      | Some bad \<Rightarrow> Inl (IntegrityError (Output.Name bad)))"
  by (induction outputs arbitrary: screens)
     (auto simp: refreshRateUndetermined_def split: option.split)

lemma SaveProfileCmd_Run_eq:
  "SaveProfileCmd_Run pdqsort result =
     (case find refreshRateUndetermined (SortFunc pdqsort priorityCmp (Outputs result)) of
        None \<Rightarrow> Inr \<lparr>Screens = map screenOf (filter Enabled (SortFunc pdqsort priorityCmp (Outputs result)))\<rparr>
      | Some bad \<Rightarrow> Inl (IntegrityError (Output.Name bad)))"
  by (simp add: SaveProfileCmd_Run_def saveLoop_eq split: option.split)

lemma find_Some_set: "find P xs = Some x \<Longrightarrow> x \<in> set xs \<and> P x"
  by (induction xs) (auto split: if_splits)

lemma find_None_set: "find P xs = None \<longleftrightarrow> (\<forall>x\<in>set xs. \<not> P x)"
  by (induction xs) auto

text \<open>
  C6.  The claim has the save path fail with an integrity error naming any enabled output
  whose current-mode identifier matches none of its modes.  The loop returns at the first
  output it cannot determine a refresh rate for, so of several such outputs only the first in
  sorted order is named (\<open>save_names_first_undetermined_only\<close> below).  As amended: when the
  inventory contains an enabled output whose current-mode identifier matches no mode, saving
  fails with the integrity error that names the first output, in sorted order, that is
  enabled and has no nonzero refresh rate for its current mode; that is the output the claim
  speaks of whenever no output of another name is in the same state.  No profile is returned
  then, and every screen of a profile that is returned has a nonzero refresh rate.
\<close>

theorem save_fails_on_first_undetermined:
  assumes "rearranges pdqsort"
  shows "((\<exists>output\<in>set (Outputs result).
            Enabled output \<and> CurrentModeId output \<notin> Id ` set (Modes output)) \<longrightarrow>
          (\<exists>bad. find refreshRateUndetermined (SortFunc pdqsort priorityCmp (Outputs result)) = Some bad
             \<and> bad \<in> set (Outputs result) \<and> refreshRateUndetermined bad
             \<and> SaveProfileCmd_Run pdqsort result = Inl (IntegrityError (Output.Name bad))))
       \<and> (\<forall>output\<in>set (Outputs result).
            Enabled output \<and> CurrentModeId output \<notin> Id ` set (Modes output)
            \<and> (\<forall>other\<in>set (Outputs result).
                  refreshRateUndetermined other \<longrightarrow> Output.Name other = Output.Name output) \<longrightarrow>
            SaveProfileCmd_Run pdqsort result = Inl (IntegrityError (Output.Name output)))
       \<and> (\<forall>profile. SaveProfileCmd_Run pdqsort result = Inr profile \<longrightarrow>
            (\<forall>screen\<in>set (Screens profile). Screen.RefreshRate screen \<noteq> 0))"
proof (intro conjI impI allI ballI)
  let ?sorted = "SortFunc pdqsort priorityCmp (Outputs result)"
  assume "\<exists>output\<in>set (Outputs result). Enabled output \<and> CurrentModeId output \<notin> Id ` set (Modes output)"
  then obtain out where "out \<in> set (Outputs result)" "refreshRateUndetermined out"
    by (auto simp: refreshRateUndetermined_def currentRefreshRate_unmatched)
  then have "\<not> (\<forall>x\<in>set ?sorted. \<not> refreshRateUndetermined x)"
    using set_SortFunc [OF assms] by blast
  then obtain bad where bad: "find refreshRateUndetermined ?sorted = Some bad"
    using find_None_set [of refreshRateUndetermined ?sorted] by (cases "find refreshRateUndetermined ?sorted") auto
  then have "bad \<in> set (Outputs result)" "refreshRateUndetermined bad"
    using find_Some_set [OF bad] set_SortFunc [OF assms] by auto
  with bad show "\<exists>bad. find refreshRateUndetermined ?sorted = Some bad
      \<and> bad \<in> set (Outputs result) \<and> refreshRateUndetermined bad
      \<and> SaveProfileCmd_Run pdqsort result = Inl (IntegrityError (Output.Name bad))"
    by (simp add: SaveProfileCmd_Run_eq)
next
  let ?sorted = "SortFunc pdqsort priorityCmp (Outputs result)"
  fix out
  assume out: "out \<in> set (Outputs result)"
    and only: "Enabled out \<and> CurrentModeId out \<notin> Id ` set (Modes out)
      \<and> (\<forall>other\<in>set (Outputs result).
            refreshRateUndetermined other \<longrightarrow> Output.Name other = Output.Name out)"
  then have "refreshRateUndetermined out"
    by (simp add: refreshRateUndetermined_def currentRefreshRate_unmatched)
  with out have "\<not> (\<forall>x\<in>set ?sorted. \<not> refreshRateUndetermined x)"
    using set_SortFunc [OF assms] by blast
  then obtain bad where bad: "find refreshRateUndetermined ?sorted = Some bad"
    using find_None_set [of refreshRateUndetermined ?sorted] by (cases "find refreshRateUndetermined ?sorted") auto
  then have "bad \<in> set (Outputs result)" "refreshRateUndetermined bad"
    using find_Some_set [OF bad] set_SortFunc [OF assms] by auto
  with only have "Output.Name bad = Output.Name out" by blast
  with bad show "SaveProfileCmd_Run pdqsort result = Inl (IntegrityError (Output.Name out))"
    by (simp add: SaveProfileCmd_Run_eq)
next
  fix profile screen
  assume "SaveProfileCmd_Run pdqsort result = Inr profile" and "screen \<in> set (Screens profile)"
  then show "Screen.RefreshRate screen \<noteq> 0"
    by (auto simp: SaveProfileCmd_Run_eq find_None_set refreshRateUndetermined_def
        split: option.splits)
qed

theorem save_fails_on_first_undetermined_witness:
  "rearranges (insertionSortCmpFunc :: (Output \<Rightarrow> Output \<Rightarrow> int) \<Rightarrow> Output list \<Rightarrow> Output list)
   \<and> Enabled outputStaleB \<and> CurrentModeId outputStaleB \<notin> Id ` set (Modes outputStaleB)
   \<and> SaveProfileCmd_Run insertionSortCmpFunc \<lparr>Outputs = [outputStaleB, outputA]\<rparr> =
       Inl (IntegrityError ''B'')
   \<and> SaveProfileCmd_Run insertionSortCmpFunc \<lparr>Outputs = [outputA]\<rparr> =
       Inr \<lparr>Screens = [screenOf outputA]\<rparr>
   \<and> Screen.RefreshRate (screenOf outputA) \<noteq> 0"
  using save_fails_on_first_undetermined [OF rearranges_insertionSortCmpFunc, of "\<lparr>Outputs = [outputStaleB, outputA]\<rparr>"]
    save_fails_on_first_undetermined [OF rearranges_insertionSortCmpFunc, of "\<lparr>Outputs = [outputA]\<rparr>"]
  by (simp add: rearranges_insertionSortCmpFunc run_defs example_defs outputStaleB_def
      refreshRateUndetermined_def)

text \<open>
  Two enabled outputs \<open>A\<close> and \<open>B\<close>, neither with a mode for its current-mode identifier:
  the error names \<open>A\<close> and not \<open>B\<close>.
\<close>

theorem save_names_first_undetermined_only:
  "outputStaleB \<in> set (Outputs \<lparr>Outputs = [outputStaleA, outputStaleB]\<rparr>)
   \<and> Enabled outputStaleB \<and> CurrentModeId outputStaleB \<notin> Id ` set (Modes outputStaleB)
   \<and> SaveProfileCmd_Run insertionSortCmpFunc \<lparr>Outputs = [outputStaleA, outputStaleB]\<rparr> =
       Inl (IntegrityError ''A'')
   \<and> SaveProfileCmd_Run insertionSortCmpFunc \<lparr>Outputs = [outputStaleA, outputStaleB]\<rparr> \<noteq>
       Inl (IntegrityError (Output.Name outputStaleB))"
  by (simp add: run_defs example_defs outputStaleA_def outputStaleB_def)

text \<open>
  C9.  A disabled output never makes the save path fail: every failure names an enabled
  output of the inventory whose refresh rate comes out as zero, and when every enabled
  output has a nonzero refresh rate the command succeeds, whatever the disabled outputs
  report, with exactly the screens of the enabled outputs.
\<close>

theorem disabled_outputs_never_fail:
  assumes "rearranges pdqsort"
  shows "(\<forall>e. SaveProfileCmd_Run pdqsort result = Inl e \<longrightarrow>
            (\<exists>output\<in>set (Outputs result). Enabled output
               \<and> currentRefreshRate (Modes output) (CurrentModeId output) = 0
               \<and> e = IntegrityError (Output.Name output)))
       \<and> ((\<forall>output\<in>set (Outputs result). Enabled output \<longrightarrow>
              currentRefreshRate (Modes output) (CurrentModeId output) \<noteq> 0) \<longrightarrow>
           SaveProfileCmd_Run pdqsort result =
             Inr \<lparr>Screens = map screenOf (filter Enabled (SortFunc pdqsort priorityCmp (Outputs result)))\<rparr>)"
proof (intro conjI impI allI)
  let ?sorted = "SortFunc pdqsort priorityCmp (Outputs result)"
  fix e
  assume "SaveProfileCmd_Run pdqsort result = Inl e"
  then obtain bad where "find refreshRateUndetermined ?sorted = Some bad" "e = IntegrityError (Output.Name bad)"
    by (auto simp: SaveProfileCmd_Run_eq split: option.splits)
  then show "\<exists>output\<in>set (Outputs result). Enabled output
      \<and> currentRefreshRate (Modes output) (CurrentModeId output) = 0
      \<and> e = IntegrityError (Output.Name output)"
    using find_Some_set [of refreshRateUndetermined ?sorted bad] set_SortFunc [OF assms, of priorityCmp "Outputs result"]
    by (auto simp: refreshRateUndetermined_def)
next
  let ?sorted = "SortFunc pdqsort priorityCmp (Outputs result)"
  assume "\<forall>output\<in>set (Outputs result). Enabled output \<longrightarrow>
            currentRefreshRate (Modes output) (CurrentModeId output) \<noteq> 0"
  then have "find refreshRateUndetermined ?sorted = None"
    using set_SortFunc [OF assms, of priorityCmp "Outputs result"]
    by (auto simp: find_None_set refreshRateUndetermined_def)
  then show "SaveProfileCmd_Run pdqsort result = Inr \<lparr>Screens = map screenOf (filter Enabled ?sorted)\<rparr>"
    by (simp add: SaveProfileCmd_Run_eq)
qed

theorem disabled_outputs_never_fail_witness:
  "rearranges (insertionSortCmpFunc :: (Output \<Rightarrow> Output \<Rightarrow> int) \<Rightarrow> Output list \<Rightarrow> Output list)
   \<and> \<not> Enabled outputOff \<and> CurrentModeId outputOff \<notin> Id ` set (Modes outputOff)
   \<and> SaveProfileCmd_Run insertionSortCmpFunc \<lparr>Outputs = [outputA, outputOff]\<rparr> =
       Inr \<lparr>Screens = [screenOf outputA]\<rparr>"
  using disabled_outputs_never_fail [OF rearranges_insertionSortCmpFunc, of "\<lparr>Outputs = [outputA, outputOff]\<rparr>"]
  by (simp add: rearranges_insertionSortCmpFunc run_defs example_defs outputOff_def)

section \<open>The load path\<close>

subsection \<open>The map of outputs\<close>

lemma fold_upd_map_of:
  "fold (\<lambda>x m. m(k x \<mapsto> x)) xs m0 = m0 ++ map_of (rev (map (\<lambda>x. (k x, x)) xs))"
proof (induction xs arbitrary: m0)
  case Nil
  then show ?case by simp
next
  case (Cons x xs)
  let ?rest = "map_of (rev (map (\<lambda>x. (k x, x)) xs))"
  have "fold (\<lambda>x m. m(k x \<mapsto> x)) (x # xs) m0 = m0(k x \<mapsto> x) ++ ?rest"
    using Cons.IH [of "m0(k x \<mapsto> x)"] by (simp del: fun_upd_apply)
  also have "m0(k x \<mapsto> x) = m0 ++ map_of [(k x, x)]"
    by (simp del: fun_upd_apply)
  also have "(m0 ++ map_of [(k x, x)]) ++ ?rest = m0 ++ map_of (rev (map (\<lambda>x. (k x, x)) (x # xs)))"
    by (simp only: map_add_assoc map_of_append rev.simps list.map)
  finally show ?case .
qed

lemma outputByName_map_of:
  "outputByName outputs = map_of (rev (map (\<lambda>x. (Output.Name x, x)) outputs))"
  by (simp add: outputByName_def fold_upd_map_of)

lemma dom_outputByName: "dom (outputByName outputs) = Output.Name ` set outputs"
  by (force simp: outputByName_map_of dom_map_of_conv_image_fst)

lemma outputByName_Some:
  "outputByName outputs n = Some x \<Longrightarrow> x \<in> set outputs \<and> Output.Name x = n"
  by (auto simp: outputByName_map_of dest: map_of_SomeD)

lemma outputByName_distinct:
  "distinct (map Output.Name outputs) \<Longrightarrow> x \<in> set outputs \<Longrightarrow>
   outputByName outputs (Output.Name x) = Some x"
  unfolding outputByName_map_of
  by (rule map_of_is_SomeI) (auto simp: rev_map [symmetric] comp_def)

subsection \<open>One screen\<close>


lemma resolveScreen_Inr:
  "resolveScreen pdqsort byName s = Inr t \<Longrightarrow>
   name t = Screen.Name s \<and> position t = Position s \<and> scale t = sixDecimals (Screen.Scale s)"
  by (auto simp: resolveScreen_def Let_def split: option.splits if_splits list.splits)

lemma resolveScreen_missing:
  "byName (Screen.Name s) = None \<Longrightarrow>
   resolveScreen pdqsort byName s = Inl (MissingOutputError (Screen.Name s))"
  by (simp add: resolveScreen_def)

lemma resolveScreen_no_mode:
  "byName (Screen.Name s) = Some x \<Longrightarrow> filter (\<lambda>m. Mode.Size m = Screen.Size s) (Modes x) = [] \<Longrightarrow>
   resolveScreen pdqsort byName s = Inl (NoMatchingModeError (Screen.Name s))"
  by (simp add: resolveScreen_def)

lemma resolveScreen_resolves:
  "rearranges pdqsort \<Longrightarrow> screenResolves byName s \<Longrightarrow> \<not> isl (resolveScreen pdqsort byName s)"
  by (auto simp: resolveScreen_def screenResolves_def Let_def SortFunc_Nil_iff
      split: option.splits list.splits)

lemma resolveScreen_isl:
  "\<not> screenResolves byName s \<Longrightarrow> isl (resolveScreen pdqsort byName s)"
  by (auto simp: resolveScreen_def screenResolves_def Let_def split: option.splits list.splits)

subsection \<open>The loop\<close>

lemma loadLoop_eq:
  "loadLoop pdqsort byName screens (targets, names) =
     (case find (\<lambda>s. isl (resolveScreen pdqsort byName s)) screens of
        Some s \<Rightarrow> Inl (projl (resolveScreen pdqsort byName s))
      | None \<Rightarrow>
          Inr (targets @ map (\<lambda>s. projr (resolveScreen pdqsort byName s)) screens,
               names \<union> Screen.Name ` set screens))"
proof (induction screens arbitrary: targets names)
  case Nil
  then show ?case by simp
next
  case (Cons s screens)
  show ?case
  proof (cases "resolveScreen pdqsort byName s")
    case (Inl e)
    then show ?thesis by simp
  next
    case (Inr t)
    then have "name t = Screen.Name s" by (simp add: resolveScreen_Inr)
    with Inr show ?thesis by (simp add: Cons.IH split: option.split)
  qed
qed

lemma LoadProfileCmd_Run_eq:
  "LoadProfileCmd_Run pdqsort keys profile currentScreen =
     (let byName = outputByName (Outputs currentScreen) in
      case find (\<lambda>s. isl (resolveScreen pdqsort byName s)) (Screens profile) of
        Some s \<Rightarrow> Inl (projl (resolveScreen pdqsort byName s))
      | None \<Rightarrow>
          Inr (map Disable (filter (\<lambda>k. k \<notin> Screen.Name ` set (Screens profile)) keys) @
               concat (map (\<lambda>s. enableArgs (projr (resolveScreen pdqsort byName s))) (Screens profile))))"
  by (simp add: LoadProfileCmd_Run_def loadLoop_eq Let_def comp_def split: option.split)

lemma enableArgs_projr:
  "\<not> isl (resolveScreen pdqsort byName s) \<Longrightarrow>
   enableArgs (projr (resolveScreen pdqsort byName s)) =
     screenArgs (mode (projr (resolveScreen pdqsort byName s))) s"
  by (cases "resolveScreen pdqsort byName s")
     (auto simp: enableArgs_def screenArgs_def dest: resolveScreen_Inr)

lemma LoadProfileCmd_Run_Inr:
  assumes "LoadProfileCmd_Run pdqsort keys profile currentScreen = Inr args"
  shows "args = map Disable (filter (\<lambda>k. k \<notin> Screen.Name ` set (Screens profile)) keys) @
           concat (map (\<lambda>s. screenArgs (mode (projr (resolveScreen pdqsort
                      (outputByName (Outputs currentScreen)) s))) s) (Screens profile))"
proof -
  let ?m = "outputByName (Outputs currentScreen)"
  from assms have none: "find (\<lambda>s. isl (resolveScreen pdqsort ?m s)) (Screens profile) = None"
    by (auto simp: LoadProfileCmd_Run_eq Let_def split: option.splits)
  then have ok: "\<forall>s\<in>set (Screens profile). \<not> isl (resolveScreen pdqsort ?m s)"
    by (simp add: find_None_set)
  have "map (\<lambda>s. enableArgs (projr (resolveScreen pdqsort ?m s))) (Screens profile)
      = map (\<lambda>s. screenArgs (mode (projr (resolveScreen pdqsort ?m s))) s) (Screens profile)"
    using ok by (intro map_cong refl) (simp add: enableArgs_projr)
  with assms none show ?thesis
    by (simp add: LoadProfileCmd_Run_eq Let_def)
qed

lemma find_first:
  "\<forall>x\<in>set pre. \<not> P x \<Longrightarrow> P s \<Longrightarrow> find P (pre @ s # post) = Some s"
  by (induction pre) auto

lemma find_exists: "s \<in> set xs \<Longrightarrow> P s \<Longrightarrow> \<exists>y. find P xs = Some y \<and> P y"
  by (induction xs) auto

lemma count_list_distinct: "distinct xs \<Longrightarrow> x \<in> set xs \<Longrightarrow> count_list xs x = 1"
  by (induction xs) auto

lemma count_list_Disable: "count_list (map Disable ks) (Disable k) = count_list ks k"
  by (induction ks) auto

text \<open>
  C3.  When loading succeeds, the names given a disable argument are exactly the names of
  the live outputs that no screen of the profile references, and the names given enable,
  mode, position and scale arguments are exactly the names of the profile's screens.
\<close>

theorem disable_and_enable_sets:
  assumes "rangeOrder (outputByName (Outputs currentScreen)) keys"
    and "LoadProfileCmd_Run pdqsort keys profile currentScreen = Inr args"
  shows "{n. Disable n \<in> set args} =
           Output.Name ` set (Outputs currentScreen) - Screen.Name ` set (Screens profile)
       \<and> {n. Enable n \<in> set args} = Screen.Name ` set (Screens profile)
       \<and> {n. \<exists>m. SetMode n m \<in> set args} = Screen.Name ` set (Screens profile)
       \<and> {n. \<exists>p. SetPosition n p \<in> set args} = Screen.Name ` set (Screens profile)
       \<and> {n. \<exists>f. SetScale n f \<in> set args} = Screen.Name ` set (Screens profile)"
proof -
  from assms(1) have keys: "set keys = Output.Name ` set (Outputs currentScreen)"
    by (simp add: rangeOrder_def dom_outputByName)
  note args = LoadProfileCmd_Run_Inr [OF assms(2)]
  have "{n. Disable n \<in> set args} = set keys - Screen.Name ` set (Screens profile)"
    by (subst args) (auto simp: screenArgs_def)
  moreover have "{n. Enable n \<in> set args} = Screen.Name ` set (Screens profile)"
    by (subst args) (auto simp: screenArgs_def)
  moreover have "{n. \<exists>m. SetMode n m \<in> set args} = Screen.Name ` set (Screens profile)"
    by (subst args) (auto simp: screenArgs_def)
  moreover have "{n. \<exists>p. SetPosition n p \<in> set args} = Screen.Name ` set (Screens profile)"
    by (subst args) (auto simp: screenArgs_def)
  moreover have "{n. \<exists>f. SetScale n f \<in> set args} = Screen.Name ` set (Screens profile)"
    by (subst args) (auto simp: screenArgs_def)
  ultimately show ?thesis using keys by simp
qed

theorem disable_and_enable_sets_witness:
  "rangeOrder (outputByName (Outputs \<lparr>Outputs = [outputA, outputB, outputC]\<rparr>)) [''C'', ''A'', ''B'']
   \<and> LoadProfileCmd_Run insertionSortCmpFunc [''C'', ''A'', ''B''] \<lparr>Screens = [screenA]\<rparr>
        \<lparr>Outputs = [outputA, outputB, outputC]\<rparr> =
      Inr [Disable ''C'', Disable ''B'', Enable ''A'', SetMode ''A'' ''1920x1080@59.9'',
           SetPosition ''A'' origin, SetScale ''A'' 1]
   \<and> {n. Disable n \<in> set [Disable ''C'', Disable ''B'', Enable ''A'', SetMode ''A'' ''1920x1080@59.9'',
           SetPosition ''A'' origin, SetScale ''A'' 1]} = {''B'', ''C''}
   \<and> {n. Enable n \<in> set [Disable ''C'', Disable ''B'', Enable ''A'', SetMode ''A'' ''1920x1080@59.9'',
           SetPosition ''A'' origin, SetScale ''A'' 1]} = {''A''}"
proof -
  have keys: "rangeOrder (outputByName (Outputs \<lparr>Outputs = [outputA, outputB, outputC]\<rparr>)) [''C'', ''A'', ''B'']"
    by (auto simp: rangeOrder_def dom_outputByName example_defs more_defs)
  have run: "LoadProfileCmd_Run insertionSortCmpFunc [''C'', ''A'', ''B''] \<lparr>Screens = [screenA]\<rparr>
        \<lparr>Outputs = [outputA, outputB, outputC]\<rparr> =
      Inr [Disable ''C'', Disable ''B'', Enable ''A'', SetMode ''A'' ''1920x1080@59.9'',
           SetPosition ''A'' origin, SetScale ''A'' 1]"
    by (simp add: run_defs example_defs more_defs)
  from disable_and_enable_sets [OF keys run] keys run show ?thesis
    by (auto simp: example_defs more_defs)
qed

text \<open>
  C7.  When loading succeeds, the argument list is the disable arguments followed by the
  groups of enable, mode, position and scale arguments, one group per screen, in the order
  of the screens in the profile.
\<close>

theorem disables_before_enables:
  assumes "LoadProfileCmd_Run pdqsort keys profile currentScreen = Inr args"
  shows "\<exists>disabledOutputs modeOf.
           args = map Disable disabledOutputs @
                  concat (map (\<lambda>s. screenArgs (modeOf s) s) (Screens profile))"
proof -
  let ?disabled = "filter (\<lambda>k. k \<notin> Screen.Name ` set (Screens profile)) keys"
  let ?modeOf = "\<lambda>s. mode (projr (resolveScreen pdqsort (outputByName (Outputs currentScreen)) s))"
  have "args = map Disable ?disabled @ concat (map (\<lambda>s. screenArgs (?modeOf s) s) (Screens profile))"
    using LoadProfileCmd_Run_Inr [OF assms] .
  then show ?thesis
    by (intro exI [where x = ?disabled] exI [where x = ?modeOf])
qed

theorem disables_before_enables_witness:
  "LoadProfileCmd_Run insertionSortCmpFunc [''A'', ''B'', ''C''] \<lparr>Screens = [screenB, screenA]\<rparr>
        \<lparr>Outputs = [outputA, outputB, outputC]\<rparr> =
      Inr [Disable ''C'',
           Enable ''B'', SetMode ''B'' ''1920x1080@59.9'', SetPosition ''B'' \<lparr>X = 1920, Y = 0\<rparr>, SetScale ''B'' 1,
           Enable ''A'', SetMode ''A'' ''1920x1080@59.9'', SetPosition ''A'' origin, SetScale ''A'' 1]
   \<and> (\<exists>disabledOutputs modeOf.
        [Disable ''C'',
           Enable ''B'', SetMode ''B'' ''1920x1080@59.9'', SetPosition ''B'' \<lparr>X = 1920, Y = 0\<rparr>, SetScale ''B'' 1,
           Enable ''A'', SetMode ''A'' ''1920x1080@59.9'', SetPosition ''A'' origin, SetScale ''A'' 1]
        = map Disable disabledOutputs @
          concat (map (\<lambda>s. screenArgs (modeOf s) s) (Screens \<lparr>Screens = [screenB, screenA]\<rparr>)))"
proof -
  have run: "LoadProfileCmd_Run insertionSortCmpFunc [''A'', ''B'', ''C''] \<lparr>Screens = [screenB, screenA]\<rparr>
        \<lparr>Outputs = [outputA, outputB, outputC]\<rparr> =
      Inr [Disable ''C'',
           Enable ''B'', SetMode ''B'' ''1920x1080@59.9'', SetPosition ''B'' \<lparr>X = 1920, Y = 0\<rparr>, SetScale ''B'' 1,
           Enable ''A'', SetMode ''A'' ''1920x1080@59.9'', SetPosition ''A'' origin, SetScale ''A'' 1]"
    by (simp add: run_defs example_defs more_defs)
  from disables_before_enables [OF run] run show ?thesis by simp
qed

text \<open>
  C10.  Loading a profile without screens succeeds, whatever the inventory, and its arguments
  are one disable argument for each name the map of live outputs holds: exactly one for
  every live output, and nothing else.
\<close>

theorem empty_profile_disables_all:
  assumes "rangeOrder (outputByName (Outputs currentScreen)) keys" and "Screens profile = []"
  shows "LoadProfileCmd_Run pdqsort keys profile currentScreen = Inr (map Disable keys)
       \<and> (\<forall>output\<in>set (Outputs currentScreen).
            count_list (map Disable keys) (Disable (Output.Name output)) = 1)
       \<and> set keys = Output.Name ` set (Outputs currentScreen)"
proof -
  from assms(1) have keys: "set keys = Output.Name ` set (Outputs currentScreen)" and d: "distinct keys"
    by (simp_all add: rangeOrder_def dom_outputByName)
  have "LoadProfileCmd_Run pdqsort keys profile currentScreen = Inr (map Disable keys)"
    using assms(2) by (simp add: LoadProfileCmd_Run_def)
  moreover have "\<forall>output\<in>set (Outputs currentScreen).
      count_list (map Disable keys) (Disable (Output.Name output)) = 1"
    using keys d by (simp add: count_list_Disable count_list_distinct)
  ultimately show ?thesis using keys by simp
qed

theorem empty_profile_disables_all_witness:
  "rangeOrder (outputByName (Outputs \<lparr>Outputs = [outputA, outputB, outputC]\<rparr>)) [''C'', ''A'', ''B'']
   \<and> Screens \<lparr>Screens = []\<rparr> = []
   \<and> LoadProfileCmd_Run insertionSortCmpFunc [''C'', ''A'', ''B''] \<lparr>Screens = []\<rparr>
        \<lparr>Outputs = [outputA, outputB, outputC]\<rparr> = Inr [Disable ''C'', Disable ''A'', Disable ''B'']
   \<and> count_list [Disable ''C'', Disable ''A'', Disable ''B''] (Disable (Output.Name outputB)) = 1"
proof -
  have keys: "rangeOrder (outputByName (Outputs \<lparr>Outputs = [outputA, outputB, outputC]\<rparr>)) [''C'', ''A'', ''B'']"
    by (auto simp: rangeOrder_def dom_outputByName example_defs more_defs)
  have empty: "Screens \<lparr>Screens = []\<rparr> = []" by simp
  from empty_profile_disables_all [OF keys empty, of insertionSortCmpFunc] keys show ?thesis
    by (simp add: example_defs more_defs)
qed

lemma LoadProfileCmd_Run_fails:
  assumes "s \<in> set (Screens profile)"
    and "isl (resolveScreen pdqsort (outputByName (Outputs currentScreen)) s)"
  shows "\<exists>e. LoadProfileCmd_Run pdqsort keys profile currentScreen = Inl e"
proof -
  obtain y where "find (\<lambda>s. isl (resolveScreen pdqsort (outputByName (Outputs currentScreen)) s))
      (Screens profile) = Some y"
    using find_exists [OF assms(1), of "\<lambda>s. isl (resolveScreen pdqsort (outputByName (Outputs currentScreen)) s)"]
      assms(2) by blast
  then show ?thesis by (simp add: LoadProfileCmd_Run_eq Let_def)
qed

lemma LoadProfileCmd_Run_first_failure:
  assumes "rearranges pdqsort"
    and "Screens profile = pre @ s # post"
    and "\<forall>t\<in>set pre. screenResolves (outputByName (Outputs currentScreen)) t"
    and "resolveScreen pdqsort (outputByName (Outputs currentScreen)) s = Inl e"
  shows "LoadProfileCmd_Run pdqsort keys profile currentScreen = Inl e"
proof -
  let ?P = "\<lambda>s. isl (resolveScreen pdqsort (outputByName (Outputs currentScreen)) s)"
  have "\<forall>t\<in>set pre. \<not> ?P t"
    using assms(1,3) by (simp add: resolveScreen_resolves)
  moreover have "?P s" using assms(4) by simp
  ultimately have "find ?P (Screens profile) = Some s"
    unfolding assms(2) by (rule find_first)
  then show ?thesis using assms(4) by (simp add: LoadProfileCmd_Run_eq Let_def)
qed

text \<open>
  C4.  The claim has loading fail with the missing-output error naming any screen of the
  profile whose name is not a live output.  The loop returns at the first screen that fails
  either check, so an earlier screen without a mode of its size is reported instead
  (\<open>missing_output_not_reported\<close> below).  As amended: a profile with a screen whose name is
  not a live output always fails to load, and no argument list is produced; the error is the
  missing-output error naming that screen when every screen before it in the profile
  resolves to a live output with a mode of the desired size.
\<close>

theorem missing_output_first_failure:
  assumes "Screens profile = pre @ s # post"
    and "outputByName (Outputs currentScreen) (Screen.Name s) = None"
  shows "(\<exists>e. LoadProfileCmd_Run pdqsort keys profile currentScreen = Inl e)
       \<and> (rearranges pdqsort \<longrightarrow>
            (\<forall>t\<in>set pre. screenResolves (outputByName (Outputs currentScreen)) t) \<longrightarrow>
            LoadProfileCmd_Run pdqsort keys profile currentScreen =
              Inl (MissingOutputError (Screen.Name s)))"
proof -
  have r: "resolveScreen pdqsort (outputByName (Outputs currentScreen)) s =
      Inl (MissingOutputError (Screen.Name s))"
    using assms(2) by (rule resolveScreen_missing)
  have "\<exists>e. LoadProfileCmd_Run pdqsort keys profile currentScreen = Inl e"
    using LoadProfileCmd_Run_fails [of s profile pdqsort currentScreen keys] assms(1) r by simp
  then show ?thesis
    using LoadProfileCmd_Run_first_failure [OF _ assms(1) _ r] by blast
qed

theorem missing_output_first_failure_witness:
  "Screens \<lparr>Screens = [screenA, screenX, screenSmall]\<rparr> = [screenA] @ screenX # [screenSmall]
   \<and> outputByName (Outputs \<lparr>Outputs = [outputA]\<rparr>) (Screen.Name screenX) = None
   \<and> rearranges (insertionSortCmpFunc :: (Mode \<Rightarrow> Mode \<Rightarrow> int) \<Rightarrow> Mode list \<Rightarrow> Mode list)
   \<and> screenResolves (outputByName (Outputs \<lparr>Outputs = [outputA]\<rparr>)) screenA
   \<and> LoadProfileCmd_Run insertionSortCmpFunc [''A''] \<lparr>Screens = [screenA, screenX, screenSmall]\<rparr>
        \<lparr>Outputs = [outputA]\<rparr> = Inl (MissingOutputError ''X'')"
proof -
  have split: "Screens \<lparr>Screens = [screenA, screenX, screenSmall]\<rparr> = [screenA] @ screenX # [screenSmall]"
    by simp
  have missing: "outputByName (Outputs \<lparr>Outputs = [outputA]\<rparr>) (Screen.Name screenX) = None"
    by (simp add: outputByName_def example_defs more_defs)
  have first: "screenResolves (outputByName (Outputs \<lparr>Outputs = [outputA]\<rparr>)) screenA"
    by (simp add: screenResolves_def outputByName_def example_defs)
  then have before: "\<forall>t\<in>set [screenA]. screenResolves (outputByName (Outputs \<lparr>Outputs = [outputA]\<rparr>)) t"
    by simp
  have r: "rearranges (insertionSortCmpFunc :: (Mode \<Rightarrow> Mode \<Rightarrow> int) \<Rightarrow> Mode list \<Rightarrow> Mode list)"
    by (rule rearranges_insertionSortCmpFunc)
  have name: "Screen.Name screenX = ''X''" by (simp add: more_defs)
  from missing_output_first_failure [OF split missing, of insertionSortCmpFunc "[''A'']"] r before
  have "LoadProfileCmd_Run insertionSortCmpFunc [''A''] \<lparr>Screens = [screenA, screenX, screenSmall]\<rparr>
        \<lparr>Outputs = [outputA]\<rparr> = Inl (MissingOutputError (Screen.Name screenX))"
    by blast
  then have run: "LoadProfileCmd_Run insertionSortCmpFunc [''A''] \<lparr>Screens = [screenA, screenX, screenSmall]\<rparr>
        \<lparr>Outputs = [outputA]\<rparr> = Inl (MissingOutputError ''X'')"
    by (simp only: name)
  show ?thesis by (intro conjI split missing r first run)
qed

text \<open>
  The profile asks for output \<open>A\<close> at a size it has no mode for and then for the missing
  output \<open>X\<close>: the error is the no-matching-mode error for \<open>A\<close>.
\<close>

theorem missing_output_not_reported:
  "screenX \<in> set (Screens \<lparr>Screens = [screenSmall, screenX]\<rparr>)
   \<and> outputByName (Outputs \<lparr>Outputs = [outputA]\<rparr>) (Screen.Name screenX) = None
   \<and> LoadProfileCmd_Run insertionSortCmpFunc [''A''] \<lparr>Screens = [screenSmall, screenX]\<rparr>
        \<lparr>Outputs = [outputA]\<rparr> = Inl (NoMatchingModeError ''A'')
   \<and> LoadProfileCmd_Run insertionSortCmpFunc [''A''] \<lparr>Screens = [screenSmall, screenX]\<rparr>
        \<lparr>Outputs = [outputA]\<rparr> \<noteq> Inl (MissingOutputError (Screen.Name screenX))"
  by (simp add: run_defs example_defs more_defs)

text \<open>
  C5.  The claim has loading fail with the no-matching-mode error naming any screen whose
  live output has no mode of the desired size.  Again the first failing screen decides
  (\<open>no_matching_mode_not_reported\<close> below).  As amended: a profile with a screen whose live
  output has no mode of the desired size always fails to load, and no argument list is
  produced; the error is the no-matching-mode error naming that screen when every screen
  before it in the profile resolves to a live output with a mode of the desired size.
\<close>

theorem no_matching_mode_first_failure:
  assumes "Screens profile = pre @ s # post"
    and "outputByName (Outputs currentScreen) (Screen.Name s) = Some live"
    and "filter (\<lambda>m. Mode.Size m = Screen.Size s) (Modes live) = []"
  shows "(\<exists>e. LoadProfileCmd_Run pdqsort keys profile currentScreen = Inl e)
       \<and> (rearranges pdqsort \<longrightarrow>
            (\<forall>t\<in>set pre. screenResolves (outputByName (Outputs currentScreen)) t) \<longrightarrow>
            LoadProfileCmd_Run pdqsort keys profile currentScreen =
              Inl (NoMatchingModeError (Screen.Name s)))"
proof -
  have r: "resolveScreen pdqsort (outputByName (Outputs currentScreen)) s =
      Inl (NoMatchingModeError (Screen.Name s))"
    using assms(2,3) by (rule resolveScreen_no_mode)
  have "\<exists>e. LoadProfileCmd_Run pdqsort keys profile currentScreen = Inl e"
    using LoadProfileCmd_Run_fails [of s profile pdqsort currentScreen keys] assms(1) r by simp
  then show ?thesis
    using LoadProfileCmd_Run_first_failure [OF _ assms(1) _ r] by blast
qed

theorem no_matching_mode_first_failure_witness:
  "Screens \<lparr>Screens = [screenB, screenSmall, screenX]\<rparr> = [screenB] @ screenSmall # [screenX]
   \<and> outputByName (Outputs \<lparr>Outputs = [outputA, outputB]\<rparr>) (Screen.Name screenSmall) = Some outputA
   \<and> filter (\<lambda>m. Mode.Size m = Screen.Size screenSmall) (Modes outputA) = []
   \<and> rearranges (insertionSortCmpFunc :: (Mode \<Rightarrow> Mode \<Rightarrow> int) \<Rightarrow> Mode list \<Rightarrow> Mode list)
   \<and> screenResolves (outputByName (Outputs \<lparr>Outputs = [outputA, outputB]\<rparr>)) screenB
   \<and> LoadProfileCmd_Run insertionSortCmpFunc [''B'', ''A''] \<lparr>Screens = [screenB, screenSmall, screenX]\<rparr>
        \<lparr>Outputs = [outputA, outputB]\<rparr> = Inl (NoMatchingModeError ''A'')"
proof -
  have split: "Screens \<lparr>Screens = [screenB, screenSmall, screenX]\<rparr> = [screenB] @ screenSmall # [screenX]"
    by simp
  have live: "outputByName (Outputs \<lparr>Outputs = [outputA, outputB]\<rparr>) (Screen.Name screenSmall) = Some outputA"
    by (simp add: outputByName_def example_defs more_defs)
  have none: "filter (\<lambda>m. Mode.Size m = Screen.Size screenSmall) (Modes outputA) = []"
    by (simp add: example_defs more_defs)
  have first: "screenResolves (outputByName (Outputs \<lparr>Outputs = [outputA, outputB]\<rparr>)) screenB"
    by (simp add: screenResolves_def outputByName_def example_defs more_defs)
  then have before: "\<forall>t\<in>set [screenB]. screenResolves (outputByName (Outputs \<lparr>Outputs = [outputA, outputB]\<rparr>)) t"
    by simp
  have r: "rearranges (insertionSortCmpFunc :: (Mode \<Rightarrow> Mode \<Rightarrow> int) \<Rightarrow> Mode list \<Rightarrow> Mode list)"
    by (rule rearranges_insertionSortCmpFunc)
  have name: "Screen.Name screenSmall = ''A''" by (simp add: more_defs example_defs)
  from no_matching_mode_first_failure [OF split live none, of insertionSortCmpFunc "[''B'', ''A'']"] r before
  have "LoadProfileCmd_Run insertionSortCmpFunc [''B'', ''A''] \<lparr>Screens = [screenB, screenSmall, screenX]\<rparr>
        \<lparr>Outputs = [outputA, outputB]\<rparr> = Inl (NoMatchingModeError (Screen.Name screenSmall))"
    by blast
  then have run: "LoadProfileCmd_Run insertionSortCmpFunc [''B'', ''A''] \<lparr>Screens = [screenB, screenSmall, screenX]\<rparr>
        \<lparr>Outputs = [outputA, outputB]\<rparr> = Inl (NoMatchingModeError ''A'')"
    by (simp only: name)
  show ?thesis by (intro conjI split live none r first run)
qed

text \<open>
  The profile asks for the missing output \<open>X\<close> and then for output \<open>A\<close> at a size it has
  no mode for: the error is the missing-output error for \<open>X\<close>.
\<close>

theorem no_matching_mode_not_reported:
  "screenSmall \<in> set (Screens \<lparr>Screens = [screenX, screenSmall]\<rparr>)
   \<and> outputByName (Outputs \<lparr>Outputs = [outputA]\<rparr>) (Screen.Name screenSmall) = Some outputA
   \<and> Screen.Size screenSmall \<notin> Mode.Size ` set (Modes outputA)
   \<and> LoadProfileCmd_Run insertionSortCmpFunc [''A''] \<lparr>Screens = [screenX, screenSmall]\<rparr>
        \<lparr>Outputs = [outputA]\<rparr> = Inl (MissingOutputError ''X'')
   \<and> LoadProfileCmd_Run insertionSortCmpFunc [''A''] \<lparr>Screens = [screenX, screenSmall]\<rparr>
        \<lparr>Outputs = [outputA]\<rparr> \<noteq> Inl (NoMatchingModeError (Screen.Name screenSmall))"
  by (simp add: run_defs example_defs more_defs)

section \<open>Saving and loading again\<close>

lemma find_split:
  "find P xs = Some c \<Longrightarrow>
   xs = takeWhile (\<lambda>x. \<not> P x) xs @ c # tl (dropWhile (\<lambda>x. \<not> P x) xs) \<and> P c"
  by (induction xs) (auto split: if_splits)

lemma currentRefreshRate_find:
  "currentRefreshRate modes cid =
     (case find (\<lambda>m. Id m = cid) modes of None \<Rightarrow> 0 | Some cur \<Rightarrow> Mode.RefreshRate cur)"
  by (induction modes) auto

lemma floatToInt_neg: "1 \<le> d \<Longrightarrow> d \<le> 2 ^ 62 \<Longrightarrow> floatToInt (- d) < 0"
  by (simp add: floatToInt_def Let_def)

lemma floatToInt_nonneg: "0 \<le> d \<Longrightarrow> d \<le> 2 ^ 62 \<Longrightarrow> \<not> floatToInt d < 0"
proof -
  assume d: "0 \<le> d" "d \<le> 2 ^ 62"
  then have "0 \<le> \<lfloor>d\<rfloor>" and "\<lfloor>d\<rfloor> \<le> 2 ^ 62"
    by (simp_all add: floor_le_iff le_floor_iff)
  then show ?thesis using d by (simp add: floatToInt_def Let_def)
qed

lemma leastFirst_insertionSortCmpFunc: "leastFirst insertionSortCmpFunc"
  unfolding leastFirst_def
proof (intro allI impI)
  fix cmp :: "'a \<Rightarrow> 'a \<Rightarrow> int" and pre c post
  assume "\<forall>y\<in>set (pre @ post). cmp c y < 0 \<and> \<not> cmp y c < 0"
  then have "\<forall>x\<in>set pre. cmp c x < 0" and "\<forall>y\<in>set post. \<not> cmp y c < 0"
    by auto
  then show "\<exists>rest. insertionSortCmpFunc cmp (pre @ c # post) = c # rest"
    by (rule insertionSortCmpFunc_first)
qed

lemma resolveScreen_current:
  assumes least: "leastFirst pdqsort"
    and byName: "byName (Output.Name output) = Some output"
    and ok: "reselectsCurrentMode output"
  shows "resolveScreen pdqsort byName (screenOf output) =
           Inr \<lparr>name = Output.Name output, mode = currentModeName output,
                position = Pos output, scale = sixDecimals (Output.Scale output)\<rparr>"
proof -
  let ?Q = "\<lambda>m. Mode.Size m = Output.Size output"
  let ?s = "screenOf output"
  let ?far = "\<lambda>m. 1 \<le> \<bar>Mode.RefreshRate cur - Mode.RefreshRate m\<bar>"
  let ?pre = "takeWhile (\<lambda>m. Id m \<noteq> CurrentModeId output) (Modes output)"
  let ?post = "tl (dropWhile (\<lambda>m. Id m \<noteq> CurrentModeId output) (Modes output))"
  from ok obtain cur where cur: "currentMode output = Some cur"
    by (auto simp: reselectsCurrentMode_def split: option.splits)
  with ok have size: "?Q cur"
    and range: "list_all (\<lambda>m. \<bar>Mode.RefreshRate cur - Mode.RefreshRate m\<bar> \<le> 2 ^ 62)
               (filter ?Q (Modes output))"
    and before: "list_all (\<lambda>m. 1 \<le> \<bar>Mode.RefreshRate cur - Mode.RefreshRate m\<bar>) (filter ?Q ?pre)"
    and after: "length (filter ?Q (Modes output)) \<le> 12
        \<or> list_all (\<lambda>m. 1 \<le> \<bar>Mode.RefreshRate cur - Mode.RefreshRate m\<bar>) (filter ?Q ?post)"
    by (simp_all add: reselectsCurrentMode_def)
  have modes: "Modes output = ?pre @ cur # ?post"
    using cur find_split [of "\<lambda>m. Id m = CurrentModeId output" "Modes output" cur]
    by (simp add: currentMode_def)
  have rate: "currentRefreshRate (Modes output) (CurrentModeId output) = Mode.RefreshRate cur"
    using cur by (simp add: currentRefreshRate_find currentMode_def)
  have potential: "filter ?Q (Modes output) = filter ?Q ?pre @ cur # filter ?Q ?post"
    by (subst modes) (simp add: size)
  have inrange: "\<bar>Mode.RefreshRate cur - Mode.RefreshRate m\<bar> \<le> 2 ^ 62"
    if "m \<in> set (filter ?Q ?pre @ filter ?Q ?post)" for m
    using range that unfolding potential by (auto simp: list_all_iff)
  have less: "refreshCmp ?s cur m < 0"
    if "m \<in> set (filter ?Q ?pre @ filter ?Q ?post)"
      and "1 \<le> \<bar>Mode.RefreshRate cur - Mode.RefreshRate m\<bar>" for m
    using inrange [OF that(1)] that(2) by (simp add: refreshCmp_def rate floatToInt_neg)
  have geq: "\<not> refreshCmp ?s m cur < 0"
    if "m \<in> set (filter ?Q ?pre @ filter ?Q ?post)" for m
    using inrange [OF that] by (simp add: refreshCmp_def rate floatToInt_nonneg)
  have less_pre: "\<forall>x\<in>set (filter ?Q ?pre). refreshCmp ?s cur x < 0"
    using before less by (auto simp: list_all_iff)
  have geq_post: "\<forall>y\<in>set (filter ?Q ?post). \<not> refreshCmp ?s y cur < 0"
    using geq by auto
  have "\<exists>rest. SortFunc pdqsort (refreshCmp ?s) (filter ?Q (Modes output)) = cur # rest"
  proof (cases "length (filter ?Q (Modes output)) \<le> 12")
    case True
    then show ?thesis
      using insertionSortCmpFunc_first [OF less_pre geq_post]
      by (simp add: SortFunc_def potential)
  next
    case False
    with after have "list_all (\<lambda>m. 1 \<le> \<bar>Mode.RefreshRate cur - Mode.RefreshRate m\<bar>) (filter ?Q ?post)"
      by simp
    with before less geq
    have "\<forall>y\<in>set (filter ?Q ?pre @ filter ?Q ?post).
        refreshCmp ?s cur y < 0 \<and> \<not> refreshCmp ?s y cur < 0"
      by (auto simp: list_all_iff)
    with least have "\<exists>rest. pdqsort (refreshCmp ?s) (filter ?Q ?pre @ cur # filter ?Q ?post) = cur # rest"
      unfolding leastFirst_def by blast
    with False show ?thesis by (simp add: SortFunc_def potential)
  qed
  then obtain rest where sorted:
    "SortFunc pdqsort (refreshCmp ?s) (filter ?Q (Modes output)) = cur # rest" ..
  have nonempty: "filter ?Q (Modes output) \<noteq> []" using potential by simp
  have sz: "Screen.Size ?s = Output.Size output" and nm: "Screen.Name ?s = Output.Name output"
    by (simp_all add: screenOf_def)
  show ?thesis
    unfolding resolveScreen_def nm sz byName
    using nonempty sorted cur
    by (simp add: currentModeName_def screenOf_def)
qed

lemma Screens_saved:
  assumes "SaveProfileCmd_Run pdqsort result = Inr profile"
  shows "Screens profile = map screenOf (filter Enabled (SortFunc pdqsort priorityCmp (Outputs result)))"
  using assms by (auto simp: SaveProfileCmd_Run_eq split: option.splits)

text \<open>
  C8.  The claim has every successfully saved profile load back, on the same inventory, as a
  no-op.  By the rule that the first mode wins a tie, an output whose current mode is listed
  after another mode of the same size and refresh rate gets that other mode, and a scale is
  handed on as \<open>%f\<close> prints it, with six decimals (\<open>round_trip_selects_other_mode\<close> below);
  loading also fails when an enabled output reports a size that none of its modes has.  As
  amended: for every inventory with distinct output names in which every enabled output
  satisfies \<open>reselectsCurrentMode\<close>, loading the saved profile on the same inventory succeeds;
  it disables exactly the outputs that are disabled, and enables each enabled output with the
  name of its current mode, its position and its scale rounded to six decimals, in the order
  of the saved profile.  Modes that lie less than 1 Hz from the current one and precede it are
  left out: what the truncated comparison does with them is the defect of C1.  The two
  library sorts are assumed to return the elements they are given and to put a least element
  first.
\<close>

theorem round_trip_reselects_current:
  assumes perm: "rearranges pdqsortOutputs"
    and least: "leastFirst pdqsortModes"
    and names: "distinct (map Output.Name (Outputs result))"
    and saved: "SaveProfileCmd_Run pdqsortOutputs result = Inr profile"
    and ok: "\<forall>output\<in>set (Outputs result). Enabled output \<longrightarrow> reselectsCurrentMode output"
  shows "LoadProfileCmd_Run pdqsortModes keys profile result =
           Inr (map Disable (filter (\<lambda>k. k \<notin> Output.Name ` set (filter Enabled (Outputs result))) keys) @
                concat (map currentArgs
                          (filter Enabled (SortFunc pdqsortOutputs priorityCmp (Outputs result)))))
       \<and> (rangeOrder (outputByName (Outputs result)) keys \<longrightarrow>
            set (filter (\<lambda>k. k \<notin> Output.Name ` set (filter Enabled (Outputs result))) keys) =
              Output.Name ` set (filter (\<lambda>output. \<not> Enabled output) (Outputs result)))"
proof (intro conjI impI)
  assume "rangeOrder (outputByName (Outputs result)) keys"
  then have keys: "set keys = Output.Name ` set (Outputs result)"
    by (simp add: rangeOrder_def dom_outputByName)
  have "Output.Name x \<noteq> Output.Name y"
    if "x \<in> set (Outputs result)" "y \<in> set (Outputs result)" "\<not> Enabled x" "Enabled y" for x y
    using names that by (auto simp: distinct_map inj_on_def)
  then show "set (filter (\<lambda>k. k \<notin> Output.Name ` set (filter Enabled (Outputs result))) keys) =
      Output.Name ` set (filter (\<lambda>output. \<not> Enabled output) (Outputs result))"
    using keys by auto
next
  let ?byName = "outputByName (Outputs result)"
  let ?sorted = "SortFunc pdqsortOutputs priorityCmp (Outputs result)"
  let ?enabled = "filter Enabled ?sorted"
  have screens: "Screens profile = map screenOf ?enabled"
    using saved by (rule Screens_saved)
  have sorted: "set ?sorted = set (Outputs result)"
    using perm by (rule set_SortFunc)
  have resolve: "resolveScreen pdqsortModes ?byName (screenOf x) =
      Inr \<lparr>name = Output.Name x, mode = currentModeName x, position = Pos x,
           scale = sixDecimals (Output.Scale x)\<rparr>"
    if "x \<in> set ?enabled" for x
  proof -
    from that sorted have x: "x \<in> set (Outputs result)" and "Enabled x" by auto
    with ok have "reselectsCurrentMode x" by blast
    moreover have "?byName (Output.Name x) = Some x"
      using names x by (rule outputByName_distinct)
    ultimately show ?thesis using least by (intro resolveScreen_current)
  qed
  have none: "find (\<lambda>s. isl (resolveScreen pdqsortModes ?byName s)) (Screens profile) = None"
    unfolding screens by (auto simp: find_None_set resolve)
  have names_eq: "Screen.Name ` set (Screens profile) = Output.Name ` set (filter Enabled (Outputs result))"
    unfolding screens using sorted by (auto simp: screenOf_def image_iff)
  have groups: "map (\<lambda>s. enableArgs (projr (resolveScreen pdqsortModes ?byName s))) (Screens profile)
      = map currentArgs ?enabled"
    unfolding screens map_map comp_def
  proof (rule map_cong [OF refl])
    fix x
    assume "x \<in> set ?enabled"
    then have r: "resolveScreen pdqsortModes ?byName (screenOf x) =
        Inr \<lparr>name = Output.Name x, mode = currentModeName x, position = Pos x,
             scale = sixDecimals (Output.Scale x)\<rparr>"
      by (rule resolve)
    show "enableArgs (projr (resolveScreen pdqsortModes ?byName (screenOf x))) = currentArgs x"
      unfolding r by (simp add: enableArgs_def currentArgs_def)
  qed
  show "LoadProfileCmd_Run pdqsortModes keys profile result =
      Inr (map Disable (filter (\<lambda>k. k \<notin> Output.Name ` set (filter Enabled (Outputs result))) keys) @
           concat (map currentArgs ?enabled))"
    unfolding LoadProfileCmd_Run_eq Let_def none names_eq groups by simp
qed

theorem round_trip_reselects_current_witness:
  "rearranges (insertionSortCmpFunc :: (Output \<Rightarrow> Output \<Rightarrow> int) \<Rightarrow> Output list \<Rightarrow> Output list)
   \<and> leastFirst (insertionSortCmpFunc :: (Mode \<Rightarrow> Mode \<Rightarrow> int) \<Rightarrow> Mode list \<Rightarrow> Mode list)
   \<and> distinct (map Output.Name (Outputs \<lparr>Outputs = [outputE, outputOff, outputD]\<rparr>))
   \<and> SaveProfileCmd_Run insertionSortCmpFunc \<lparr>Outputs = [outputE, outputOff, outputD]\<rparr> =
       Inr \<lparr>Screens = [screenOf outputD, screenOf outputE]\<rparr>
   \<and> reselectsCurrentMode outputD \<and> reselectsCurrentMode outputE
   \<and> LoadProfileCmd_Run insertionSortCmpFunc [''OFF'', ''E'', ''D'']
        \<lparr>Screens = [screenOf outputD, screenOf outputE]\<rparr> \<lparr>Outputs = [outputE, outputOff, outputD]\<rparr> =
       Inr [Disable ''OFF'',
            Enable ''D'', SetMode ''D'' ''1920x1080@60'', SetPosition ''D'' \<lparr>X = 1920, Y = 120\<rparr>,
            SetScale ''D'' (5 / 4),
            Enable ''E'', SetMode ''E'' ''1920x1080@60'', SetPosition ''E'' origin,
            SetScale ''E'' (1234568 / 1000000)]"
proof -
  have perm: "rearranges (insertionSortCmpFunc :: (Output \<Rightarrow> Output \<Rightarrow> int) \<Rightarrow> Output list \<Rightarrow> Output list)"
    by (rule rearranges_insertionSortCmpFunc)
  have least: "leastFirst (insertionSortCmpFunc :: (Mode \<Rightarrow> Mode \<Rightarrow> int) \<Rightarrow> Mode list \<Rightarrow> Mode list)"
    by (rule leastFirst_insertionSortCmpFunc)
  have names: "distinct (map Output.Name (Outputs \<lparr>Outputs = [outputE, outputOff, outputD]\<rparr>))"
    by (simp add: example_defs more_defs twin_defs)
  have saved: "SaveProfileCmd_Run insertionSortCmpFunc \<lparr>Outputs = [outputE, outputOff, outputD]\<rparr> =
       Inr \<lparr>Screens = [screenOf outputD, screenOf outputE]\<rparr>"
    by (simp add: run_defs example_defs more_defs twin_defs)
  have d: "reselectsCurrentMode outputD"
    by (simp add: reselectsCurrentMode_def currentMode_def example_defs twin_defs)
  have e: "reselectsCurrentMode outputE"
    by (simp add: reselectsCurrentMode_def currentMode_def example_defs twin_defs)
  from d e have ok: "\<forall>output\<in>set (Outputs \<lparr>Outputs = [outputE, outputOff, outputD]\<rparr>).
      Enabled output \<longrightarrow> reselectsCurrentMode output"
    by (simp add: more_defs)
  have "LoadProfileCmd_Run insertionSortCmpFunc [''OFF'', ''E'', ''D'']
        \<lparr>Screens = [screenOf outputD, screenOf outputE]\<rparr> \<lparr>Outputs = [outputE, outputOff, outputD]\<rparr> =
       Inr [Disable ''OFF'',
            Enable ''D'', SetMode ''D'' ''1920x1080@60'', SetPosition ''D'' \<lparr>X = 1920, Y = 120\<rparr>,
            SetScale ''D'' (5 / 4),
            Enable ''E'', SetMode ''E'' ''1920x1080@60'', SetPosition ''E'' origin,
            SetScale ''E'' (1234568 / 1000000)]"
    using round_trip_reselects_current [OF perm least names saved ok, of "[''OFF'', ''E'', ''D'']"]
    by (simp add: run_defs example_defs more_defs twin_defs currentArgs_def currentModeName_def
        currentMode_def)
  with perm least names saved d e show ?thesis by (intro conjI)
qed

text \<open>
  An output with two 60 Hz modes of the same size, the second of them current, and a scale
  of 1.2345678: the saved profile loads back with the first mode and the scale 1.234568.
\<close>

theorem round_trip_selects_other_mode:
  "SaveProfileCmd_Run insertionSortCmpFunc \<lparr>Outputs = [outputTwin]\<rparr> = Inr \<lparr>Screens = [screenOf outputTwin]\<rparr>
   \<and> LoadProfileCmd_Run insertionSortCmpFunc [''A''] \<lparr>Screens = [screenOf outputTwin]\<rparr>
        \<lparr>Outputs = [outputTwin]\<rparr> =
       Inr [Enable ''A'', SetMode ''A'' ''1920x1080@60 (first)'', SetPosition ''A'' origin,
            SetScale ''A'' (1234568 / 1000000)]
   \<and> currentModeName outputTwin = ''1920x1080@60 (second)''
   \<and> Output.Scale outputTwin = 12345678 / 10000000"
  by (simp add: run_defs example_defs twin_defs currentModeName_def currentMode_def)

text \<open>
  Why \<open>reselectsCurrentMode\<close> bounds the distances: with the current 60 Hz mode listed first
  and a second mode at \<open>10 ^ 19\<close> Hz, the distance of the second does not fit an \<open>int\<close>, the
  conversion yields the least \<open>int\<close>, the second mode compares as the nearer one and is
  selected.
\<close>

lemma round_trip_out_of_range:
  "SaveProfileCmd_Run insertionSortCmpFunc \<lparr>Outputs = [outputFar]\<rparr> = Inr \<lparr>Screens = [screenOf outputFar]\<rparr>
   \<and> LoadProfileCmd_Run insertionSortCmpFunc [''A''] \<lparr>Screens = [screenOf outputFar]\<rparr>
        \<lparr>Outputs = [outputFar]\<rparr> =
       Inr [Enable ''A'', SetMode ''A'' ''1920x1080@1e19'', SetPosition ''A'' origin, SetScale ''A'' 1]
   \<and> currentModeName outputFar = ''1920x1080@60''"
  by (simp add: run_defs example_defs twin_defs currentModeName_def currentMode_def)

section \<open>Nearest refresh rate\<close>

text \<open>
  C1.  The specification has the applier select, among the modes of the desired size, the one
  whose refresh rate is nearest to the desired rate, so that of modes at 59.9, 60 and 75 Hz a
  desired rate of 60 selects the 60 Hz mode.  The program sorts the qualifying modes with a
  comparison that truncates the difference of the two distances to an integer: distances less
  than 1 Hz apart compare as equal, the 59.9 Hz mode keeps its first place and is the one
  selected, whatever sorts the longer slices.
\<close>

theorem nearest_refresh_rate_truncated:
  "LoadProfileCmd_Run pdqsort [''A''] \<lparr>Screens = [screenA]\<rparr> \<lparr>Outputs = [outputA]\<rparr> =
     Inr [Enable ''A'', SetMode ''A'' ''1920x1080@59.9'', SetPosition ''A'' origin, SetScale ''A'' 1]
   \<and> map_option Mode.Name (specNearestMode 60 [mode599, mode600, mode750]) = Some ''1920x1080@60''"
  by (simp add: run_defs example_defs specNearestMode_def)

section \<open>Order of the saved screens\<close>

text \<open>
  On a comparison that agrees with a linear order of keys, the insertion sort is the stable
  sort by that key.  The comparison of priorities is such a comparison as long as the
  difference does not wrap, so that an inventory of at most 12 outputs with priorities in
  range is saved in ascending order of priority, outputs of equal priority in the order of
  the inventory.
\<close>

lemma set_insertRight: "set (insertRight cmp y acc) = insert y (set acc)"
  using mset_insertRight [of cmp y acc] by (metis set_mset_add_mset_insert set_mset_mset)

lemma sorted_insertRight:
  fixes key :: "'a \<Rightarrow> 'k::linorder"
  assumes "\<forall>x\<in>set acc. cmp y x < 0 \<longleftrightarrow> key y < key x"
    and "sorted (map key (rev acc))"
  shows "sorted (map key (rev (insertRight cmp y acc)))"
  using assms
proof (induction acc)
  case Nil
  then show ?case by simp
next
  case (Cons x acc)
  show ?case
  proof (cases "cmp y x < 0")
    case True
    with Cons.prems have "key y < key x" by simp
    moreover have "sorted (map key (rev (insertRight cmp y acc)))"
      using Cons by (simp add: sorted_append)
    ultimately show ?thesis
      using True Cons.prems(2) by (auto simp: sorted_append set_insertRight)
  next
    case False
    with Cons.prems have "key x \<le> key y" by auto
    then show ?thesis
      using False Cons.prems(2) by (auto simp: sorted_append)
  qed
qed

lemma filter_insertRight:
  fixes key :: "'a \<Rightarrow> 'k::linorder"
  assumes "\<forall>x\<in>set acc. cmp y x < 0 \<longleftrightarrow> key y < key x"
  shows "filter (\<lambda>x. k = key x) (rev (insertRight cmp y acc)) = filter (\<lambda>x. k = key x) (rev acc @ [y])"
  using assms by (induction acc) auto

lemma insertAll_stable_sorted:
  fixes key :: "'a \<Rightarrow> 'k::linorder"
  assumes "\<forall>a\<in>set xs. \<forall>b\<in>set xs. cmp a b < 0 \<longleftrightarrow> key a < key b"
  shows "sorted (map key (rev (insertAll cmp xs)))
       \<and> (\<forall>k. filter (\<lambda>x. k = key x) (rev (insertAll cmp xs)) = filter (\<lambda>x. k = key x) xs)"
  using assms
proof (induction xs rule: rev_induct)
  case Nil
  then show ?case by (simp add: insertAll_def)
next
  case (snoc y xs)
  let ?acc = "insertAll cmp xs"
  have set_acc: "set ?acc = set xs"
    using mset_insertAll [of cmp xs] by (metis set_mset_mset)
  from snoc.prems have compat: "\<forall>x\<in>set ?acc. cmp y x < 0 \<longleftrightarrow> key y < key x"
    by (simp add: set_acc)
  from snoc have IH: "sorted (map key (rev ?acc))"
    "\<And>k. filter (\<lambda>x. k = key x) (rev ?acc) = filter (\<lambda>x. k = key x) xs"
    by simp_all
  show ?case
    unfolding insertAll_snoc
    using sorted_insertRight [of ?acc cmp y key, OF compat IH(1)]
      filter_insertRight [of ?acc cmp y key, OF compat] IH(2)
    by simp
qed

lemma insertionSortCmpFunc_sort_key:
  fixes key :: "'a \<Rightarrow> 'k::linorder"
  assumes "\<forall>a\<in>set xs. \<forall>b\<in>set xs. cmp a b < 0 \<longleftrightarrow> key a < key b"
  shows "insertionSortCmpFunc cmp xs = sort_key key xs"
proof (rule properties_for_sort_key [symmetric])
  show "mset (insertionSortCmpFunc cmp xs) = mset xs" by simp
  show "sorted (map key (insertionSortCmpFunc cmp xs))"
    using insertAll_stable_sorted [OF assms] by (simp add: insertionSortCmpFunc_insertAll)
  show "filter (\<lambda>x. key k = key x) (insertionSortCmpFunc cmp xs) = filter (\<lambda>x. key k = key x) xs" for k
    using insertAll_stable_sorted [OF assms] by (simp add: insertionSortCmpFunc_insertAll)
qed

lemma priorityCmp_in_range:
  assumes "priorityInRange a" and "priorityInRange b"
  shows "priorityCmp a b < 0 \<longleftrightarrow> sint (Priority a) < sint (Priority b)"
proof -
  have "sint (Priority a - Priority b) = sint (Priority a) - sint (Priority b)"
    using assms unfolding priorityInRange_def sint_word_diff
    by (intro signed_take_bit_int_eq_self) simp_all
  then show ?thesis by (simp add: priorityCmp_def)
qed

lemma SortFunc_priorities:
  assumes "length outputs \<le> 12" and "\<forall>output\<in>set outputs. priorityInRange output"
  shows "SortFunc pdqsort priorityCmp outputs = sort_key (\<lambda>output. sint (Priority output)) outputs"
  using assms by (simp add: SortFunc_def insertionSortCmpFunc_sort_key priorityCmp_in_range)

lemma saved_screens_sorted_stable:
  assumes "length (Outputs result) \<le> 12"
    and "\<forall>output\<in>set (Outputs result). priorityInRange output"
    and "SaveProfileCmd_Run pdqsort result = Inr profile"
  shows "Screens profile =
           map screenOf (filter Enabled (sort_key (\<lambda>output. sint (Priority output)) (Outputs result)))"
  using Screens_saved [OF assms(3)] SortFunc_priorities [OF assms(1,2)] by simp

text \<open>
  C2.  The specification has the save path order the screens by ascending priority, stably.
  The comparison is the 64-bit difference of the two priorities, which wraps: for priorities
  \<open>-2\<close> and \<open>9223372036854775807\<close> the output of the higher priority compares as the smaller
  one and its screen comes first, whatever sorts the longer slices.
\<close>

theorem priority_order_overflow:
  "SaveProfileCmd_Run pdqsort \<lparr>Outputs = [outputLow, outputHigh]\<rparr> =
     Inr \<lparr>Screens = [screenOf outputHigh, screenOf outputLow]\<rparr>
   \<and> sint (Priority outputLow) < sint (Priority outputHigh)"
  by (simp add: run_defs example_defs)

end
